theory Spec2Isabelle
  imports Complex_Main
begin

section \<open>The code store of \<^verbatim>\<open>routers/auth.py\<close>\<close>

text \<open>
  Class \<^verbatim>\<open>SMSStorage\<close> keeps one-time codes in Redis and, once a Redis call has
  raised, in the module-level dictionary \<^verbatim>\<open>dev_sms_storage\<close>.

  Time is the value of \<^verbatim>\<open>time.time()\<close>, a number of seconds, taken here as a real
  number; one reading \<open>now\<close> stands for all the readings a single call makes.

  Redis is an external server. It is modelled by its documented contract: \<^verbatim>\<open>SETEX\<close>
  stores a value that stays readable until \<open>ttl\<close> seconds have passed and rejects a
  \<open>ttl\<close> that is not positive, \<^verbatim>\<open>GET\<close> returns the value or nothing, \<^verbatim>\<open>DELETE\<close>
  removes it. Whether a given call reaches the server is an input of each operation
  (\<open>up\<close>: the call returns; \<open>\<not> up\<close>: it raises). The key \<^verbatim>\<open>"sms_code:" + phone\<close>
  is represented by the phone number, the prefix being the same for every key.
\<close>

record entry =
  code :: string
  expires :: real

record SMSStorage =
  redis_client :: bool  \<comment> \<open>\<^verbatim>\<open>self.redis_client\<close> is not \<^verbatim>\<open>None\<close>\<close>
  redis_db :: "string \<rightharpoonup> entry"  \<comment> \<open>the keys held by the Redis server\<close>
  dev_sms_storage :: "string \<rightharpoonup> entry"
  dev_storage_cleanup_time :: real

text \<open>\<^verbatim>\<open>_set_sms_code_fallback\<close>: the dictionary assignment; it returns \<^verbatim>\<open>True\<close>.\<close>

definition set_sms_code_fallback ::
  "SMSStorage \<Rightarrow> string \<Rightarrow> string \<Rightarrow> int \<Rightarrow> real \<Rightarrow> bool \<times> SMSStorage" where
  "set_sms_code_fallback s phone_number c ttl now =
     (True, s\<lparr>dev_sms_storage := (dev_sms_storage s)
                 (phone_number \<mapsto> \<lparr>code = c, expires = now + of_int ttl\<rparr>)\<rparr>)"

text \<open>\<^verbatim>\<open>set_sms_code\<close>: Redis first; an exception clears \<^verbatim>\<open>redis_client\<close> for good.\<close>

definition set_sms_code ::
  "SMSStorage \<Rightarrow> string \<Rightarrow> string \<Rightarrow> int \<Rightarrow> bool \<Rightarrow> real \<Rightarrow> bool \<times> SMSStorage" where
  "set_sms_code s phone_number c ttl up now =
     (if redis_client s then
        (if up \<and> 0 < ttl then
           (True, s\<lparr>redis_db := (redis_db s)
                       (phone_number \<mapsto> \<lparr>code = c, expires = now + of_int ttl\<rparr>)\<rparr>)
         else set_sms_code_fallback (s\<lparr>redis_client := False\<rparr>) phone_number c ttl now)
      else set_sms_code_fallback s phone_number c ttl now)"

text \<open>\<^verbatim>\<open>_cleanup_expired_codes\<close>: every entry with \<^verbatim>\<open>current_time >= expires\<close> is deleted.\<close>

definition cleanup_expired_codes :: "SMSStorage \<Rightarrow> real \<Rightarrow> SMSStorage" where
  "cleanup_expired_codes s current_time =
     s\<lparr>dev_sms_storage := (\<lambda>phone.
          case dev_sms_storage s phone of
            None \<Rightarrow> None
          | Some d \<Rightarrow> if current_time \<ge> expires d then None else Some d)\<rparr>"

text \<open>
  \<^verbatim>\<open>_get_sms_code_fallback\<close>: the sweep when more than 300 seconds have passed since
  the last one, then the lookup; an entry that is no longer live is deleted.
\<close>

definition get_sms_code_fallback ::
  "SMSStorage \<Rightarrow> string \<Rightarrow> real \<Rightarrow> string option \<times> SMSStorage" where
  "get_sms_code_fallback s phone_number now =
     (let s1 = (if now - dev_storage_cleanup_time s > 300
                then (cleanup_expired_codes s now)\<lparr>dev_storage_cleanup_time := now\<rparr>
                else s)
      in case dev_sms_storage s1 phone_number of
           Some d \<Rightarrow>
             if now < expires d then (Some (code d), s1)
             else (None, s1\<lparr>dev_sms_storage := (dev_sms_storage s1)(phone_number := None)\<rparr>)
         | None \<Rightarrow> (None, s1))"

definition redis_get :: "SMSStorage \<Rightarrow> string \<Rightarrow> real \<Rightarrow> string option" where
  "redis_get s phone_number now =
     (case redis_db s phone_number of
        Some d \<Rightarrow> if now < expires d then Some (code d) else None
      | None \<Rightarrow> None)"

definition get_sms_code ::
  "SMSStorage \<Rightarrow> string \<Rightarrow> bool \<Rightarrow> real \<Rightarrow> string option \<times> SMSStorage" where
  "get_sms_code s phone_number up now =
     (if redis_client s then
        (if up then (redis_get s phone_number now, s)
         else get_sms_code_fallback (s\<lparr>redis_client := False\<rparr>) phone_number now)
      else get_sms_code_fallback s phone_number now)"

definition delete_sms_code_fallback :: "SMSStorage \<Rightarrow> string \<Rightarrow> SMSStorage" where
  "delete_sms_code_fallback s phone_number =
     s\<lparr>dev_sms_storage := (dev_sms_storage s)(phone_number := None)\<rparr>"

definition delete_sms_code :: "SMSStorage \<Rightarrow> string \<Rightarrow> bool \<Rightarrow> SMSStorage" where
  "delete_sms_code s phone_number up =
     (if redis_client s then
        (if up then s\<lparr>redis_db := (redis_db s)(phone_number := None)\<rparr>
         else delete_sms_code_fallback (s\<lparr>redis_client := False\<rparr>) phone_number)
      else delete_sms_code_fallback s phone_number)"

text \<open>
  The module creates \<^verbatim>\<open>dev_sms_storage = {}\<close> and one \<^verbatim>\<open>SMSStorage()\<close>, whose
  constructor pings Redis: \<open>ping_ok\<close> tells whether the ping returned.
\<close>

definition init_storage :: "bool \<Rightarrow> (string \<rightharpoonup> entry) \<Rightarrow> real \<Rightarrow> SMSStorage" where
  "init_storage ping_ok server now =
     \<lparr>redis_client = ping_ok, redis_db = server,
      dev_sms_storage = Map.empty, dev_storage_cleanup_time = now\<rparr>"

text \<open>
  While \<^verbatim>\<open>redis_client\<close> is set nothing has been written to the dictionary: it is
  written only by the fallbacks, which run once the client is cleared.
\<close>

definition storage_inv :: "SMSStorage \<Rightarrow> bool" where
  "storage_inv s = (redis_client s \<longrightarrow> dev_sms_storage s = Map.empty)"

section \<open>Phone numbers: \<^verbatim>\<open>PhoneAuth.validate_phone\<close> of \<^verbatim>\<open>schemas.py\<close>\<close>

text \<open>
  \<^verbatim>\<open>re.sub(r'\D', '', v)\<close> keeps the decimal digits. A \<open>char\<close> is one of 256 values, and
  among those the digits are \<open>0\<close> to \<open>9\<close>. \<open>None\<close> is the \<^verbatim>\<open>ValueError\<close>.
\<close>

definition isdigit :: "char \<Rightarrow> bool" where
  "isdigit c = (c \<in> set ''0123456789'')"

definition slice :: "nat \<Rightarrow> nat \<Rightarrow> 'a list \<Rightarrow> 'a list" where
  "slice i j xs = take (j - i) (drop i xs)"

definition startswith :: "string \<Rightarrow> char \<Rightarrow> bool" where
  "startswith xs c = (case xs of [] \<Rightarrow> False | x # _ \<Rightarrow> x = c)"

definition validate_phone :: "string \<Rightarrow> string option" where
  "validate_phone v =
     (let cleaned = filter isdigit v in
      if length cleaned = 11 \<and> startswith cleaned (CHR ''7'') then
        Some (''+7 '' @ slice 1 4 cleaned @ '' '' @ slice 4 7 cleaned @ ''-''
              @ slice 7 9 cleaned @ ''-'' @ slice 9 11 cleaned)
      else if length cleaned = 10 \<and> startswith cleaned (CHR ''9'') then
        Some (''+7 '' @ slice 0 3 cleaned @ '' '' @ slice 3 6 cleaned @ ''-''
              @ slice 6 8 cleaned @ ''-'' @ slice 8 10 cleaned)
      else None)"

section \<open>Requesting and verifying a code: \<^verbatim>\<open>routers/auth.py\<close>\<close>

text \<open>
  Every \<^verbatim>\<open>HTTPException\<close> the routers raise is a value of \<open>error\<close>:
  \<^item> \<open>ValidationError\<close>: the request body is rejected by its schema (422);
  \<^item> \<open>CodeSaveError\<close>, \<open>SmsSendError\<close>, \<open>SendInternalError\<close>: the three 500 answers
    of \<^verbatim>\<open>send_sms_code\<close>;
  \<^item> \<open>CodeNotFound\<close> (400, no code or an expired one), \<open>CodeMismatch\<close> (400, wrong
    code), \<open>AccountDisabled\<close> (400), \<open>UserCreateError\<close> and \<open>VerifyInternalError\<close>
    (500): the answers of \<^verbatim>\<open>verify_sms_code\<close>;
  \<^item> \<open>Forbidden\<close> (403), \<open>NotFound\<close> (404, no such order), \<open>PvzNotFound\<close> (404),
    \<open>CreateInternalError\<close> (500, raised by the handler of \<^verbatim>\<open>create_order\<close>) and
    \<open>InternalError\<close> (500, an exception no handler catches): the answers of
    \<^verbatim>\<open>routers/orders.py\<close>;
  \<^item> \<open>InvalidToken\<close> (401), \<open>UserNotFound\<close> (401) and \<open>InactiveUser\<close> (400): the answers
    of \<^verbatim>\<open>get_current_active_user\<close> in \<^verbatim>\<open>auth.py\<close>.
\<close>

datatype error =
    ValidationError | CodeSaveError | SmsSendError | SendInternalError
  | CodeNotFound | CodeMismatch | AccountDisabled | UserCreateError | VerifyInternalError
  | Forbidden | NotFound | PvzNotFound | CreateInternalError | InternalError
  | InvalidToken | UserNotFound | InactiveUser

text \<open>
  A line written through \<^verbatim>\<open>logger\<close> is its level, a tag that stands for the fixed
  text of the f-string, and the values the f-string interpolates, in order. The lines
  of the two endpoints are recorded; those of \<^verbatim>\<open>SMSStorage\<close>, which interpolate a phone
  number or an exception, are not.
\<close>

datatype log_level = INFO | WARNING | ERROR

datatype log_line = Log log_level string "string list"

fun log_values :: "log_line \<Rightarrow> string list" where
  "log_values (Log l t vs) = vs"

definition str_opt :: "string option \<Rightarrow> string" where
  "str_opt v = (case v of None \<Rightarrow> ''None'' | Some x \<Rightarrow> x)"

text \<open>
  \<^verbatim>\<open>send_sms\<close> of \<^verbatim>\<open>auth.py\<close> prints the message and returns \<^verbatim>\<open>True\<close>, or \<^verbatim>\<open>False\<close>
  when printing raised: \<open>delivered\<close> tells which.
\<close>

definition send_sms :: "bool \<Rightarrow> string \<Rightarrow> string \<Rightarrow> bool" where
  "send_sms delivered phone_number c = delivered"

record send_env =
  generated_code :: string  \<comment> \<open>the value of \<^verbatim>\<open>generate_sms_code()\<close>\<close>
  set_up :: bool  \<comment> \<open>the Redis call of \<^verbatim>\<open>set_sms_code\<close> returns\<close>
  sms_delivered :: bool
  delete_up :: bool  \<comment> \<open>the Redis call of \<^verbatim>\<open>delete_sms_code\<close> returns\<close>
  send_time :: real

text \<open>
  \<^verbatim>\<open>send_sms_code\<close>, on the validated \<^verbatim>\<open>phone_auth.phone_number\<close>. The answer is the
  dictionary the endpoint returns, the new store, and the lines logged.
\<close>

definition send_sms_code ::
  "send_env \<Rightarrow> string \<Rightarrow> SMSStorage
     \<Rightarrow> (error + (string \<times> string) list) \<times> SMSStorage \<times> log_line list" where
  "send_sms_code env phone_number st =
     (let c = generated_code env;
          lg1 = [Log INFO ''request to send sms'' [phone_number],
                 Log INFO ''code generated'' [c, phone_number]];
          (saved, st1) = set_sms_code st phone_number c 300 (set_up env) (send_time env)
      in if \<not> saved then (Inl CodeSaveError, st1, lg1)
         else
           let lg2 = lg1 @ [Log INFO ''trying to send sms'' [phone_number]] in
           if send_sms (sms_delivered env) phone_number c then
             (Inr [(''message'', ''sms code sent''), (''phone_number'', phone_number),
                   (''code'', c)],
              st1, lg2 @ [Log INFO ''sms sent'' [phone_number]])
           else
             (Inl SmsSendError, delete_sms_code st1 phone_number (delete_up env),
              lg2 @ [Log ERROR ''sms sending failed'' [phone_number]]))"

text \<open>The route \<^verbatim>\<open>/send-sms\<close>: the body is parsed as \<^verbatim>\<open>PhoneAuth\<close> first.\<close>

definition post_send_sms ::
  "send_env \<Rightarrow> string \<Rightarrow> SMSStorage
     \<Rightarrow> (error + (string \<times> string) list) \<times> SMSStorage \<times> log_line list" where
  "post_send_sms env raw st =
     (case validate_phone raw of
        None \<Rightarrow> (Inl ValidationError, st, [])
      | Some phone_number \<Rightarrow> send_sms_code env phone_number st)"

text \<open>
  The table \<^verbatim>\<open>users\<close>, with the columns the endpoints read and write. \<open>u_id\<close> is the
  column \<^verbatim>\<open>id\<close>, \<open>u_created_at\<close> the column \<^verbatim>\<open>created_at\<close>, which the server fills
  with the time of the insert.
\<close>

record User =
  u_id :: int
  phone_number :: string
  role :: string
  is_active :: bool
  u_created_at :: real

definition fresh_id :: "int list \<Rightarrow> int" where
  "fresh_id ids = fold max ids 0 + 1"

text \<open>
  The session token is represented by its claims; \<^verbatim>\<open>ACCESS_TOKEN_EXPIRE_MINUTES\<close> is
  30, that is 1800 seconds.
\<close>

record Token =
  sub :: string
  exp :: real
  token_type :: string

record verify_env =
  get_up :: bool  \<comment> \<open>the Redis call of \<^verbatim>\<open>get_sms_code\<close> returns\<close>
  del_up :: bool  \<comment> \<open>the Redis call of \<^verbatim>\<open>delete_sms_code\<close> returns\<close>
  select_ok :: bool  \<comment> \<open>the \<^verbatim>\<open>SELECT\<close> on \<^verbatim>\<open>users\<close> returns\<close>
  insert_ok :: bool  \<comment> \<open>the \<^verbatim>\<open>INSERT\<close> and its commit return\<close>
  verify_time :: real

text \<open>
  \<^verbatim>\<open>verify_sms_code\<close>. \<^verbatim>\<open>SMSCode\<close> has no validator: \<open>phone_number\<close> and
  \<open>submitted\<close> are the two fields as sent. \<^verbatim>\<open>not stored_code\<close> holds for \<^verbatim>\<open>None\<close> and
  for the empty string.
\<close>

definition verify_sms_code ::
  "verify_env \<Rightarrow> string \<Rightarrow> string \<Rightarrow> SMSStorage \<Rightarrow> User list
     \<Rightarrow> (error + Token) \<times> SMSStorage \<times> User list \<times> log_line list" where
  "verify_sms_code env phone submitted st users =
     (let now = verify_time env;
          (stored_code, st1) = get_sms_code st phone (get_up env) now;
          lg1 = [Log INFO ''verification attempt'' [phone],
                 Log INFO ''code fetched'' [str_opt stored_code, phone]]
      in if stored_code = None \<or> stored_code = Some [] then
           (Inl CodeNotFound, st1, users, lg1 @ [Log WARNING ''code not found'' [phone]])
         else
           let st2 = delete_sms_code st1 phone (del_up env) in
           if str_opt stored_code \<noteq> submitted then
             (Inl CodeMismatch, st2, users,
              lg1 @ [Log WARNING ''wrong code'' [phone, str_opt stored_code, submitted]])
           else
             let lg2 = lg1 @ [Log INFO ''code is right'' [phone]];
                 token = \<lparr>sub = phone, exp = now + 1800, token_type = ''bearer''\<rparr>;
                 lg_ok = [Log INFO ''authenticated'' [phone]]
             in if \<not> select_ok env then
                  (Inl VerifyInternalError, st2, users,
                   lg2 @ [Log ERROR ''unexpected error'' [''<exception>'']])
                else
                  (case find (\<lambda>u. phone_number u = phone) users of
                     Some u \<Rightarrow>
                       if \<not> is_active u then
                         (Inl AccountDisabled, st2, users,
                          lg2 @ [Log WARNING ''blocked user'' [phone]])
                       else (Inr token, st2, users, lg2 @ lg_ok)
                   | None \<Rightarrow>
                       if insert_ok env then
                         (Inr token, st2,
                          users @ [\<lparr>u_id = fresh_id (map u_id users), phone_number = phone,
                                    role = ''CLIENT'', is_active = True,
                                    u_created_at = now\<rparr>],
                          lg2 @ [Log INFO ''creating user'' [phone],
                                 Log INFO ''user created'' [''<id>'']] @ lg_ok)
                       else
                         (Inl UserCreateError, st2, users,
                          lg2 @ [Log INFO ''creating user'' [phone],
                                 Log ERROR ''user creation failed'' [''<exception>'']])))"

section \<open>The caller: \<^verbatim>\<open>get_current_active_user\<close> of \<^verbatim>\<open>auth.py\<close>\<close>

text \<open>
  Every order route receives \<open>current_user\<close> from this dependency, and the dependency
  returns \<^verbatim>\<open>user_dict\<close>, a Python dictionary. The annotation \<^verbatim>\<open>current_user: User\<close>
  of the routes converts nothing.

  \<open>py_value\<close> holds the Python values that occur: \<^verbatim>\<open>None\<close>, booleans, integers,
  strings, timestamps and the bound methods of a dictionary.
\<close>

datatype py_value = PyNone | PyBool bool | PyInt int | PyStr string | PyTime real | PyMethod string

datatype py_exception = AttributeError

type_synonym py_dict = "(string \<times> py_value) list"

text \<open>
  \<^verbatim>\<open>d.name\<close> on a dictionary: the keys are not attributes. The public attributes of
  \<^verbatim>\<open>dict\<close> are its methods; any other name raises \<^verbatim>\<open>AttributeError\<close>. (The names with
  two leading underscores, which no route reads, are left out.)
\<close>

definition dict_attributes :: "string list" where
  "dict_attributes = [''clear'', ''copy'', ''fromkeys'', ''get'', ''items'', ''keys'', ''pop'',
                      ''popitem'', ''setdefault'', ''update'', ''values'']"

definition getattr :: "py_dict \<Rightarrow> string \<Rightarrow> py_exception + py_value" where
  "getattr d name =
     (if name \<in> set dict_attributes then Inr (PyMethod name) else Inl AttributeError)"

text \<open>
  \<^verbatim>\<open>verify_token\<close>: the bearer string either decodes under \<^verbatim>\<open>SECRET_KEY\<close> to the
  claims of a token (\<open>Some\<close>) or does not (\<open>None\<close>); \<^verbatim>\<open>jwt.decode\<close> rejects a token
  whose \<^verbatim>\<open>exp\<close> has passed.
\<close>

definition verify_token :: "real \<Rightarrow> Token option \<Rightarrow> string option" where
  "verify_token now credentials =
     (case credentials of
        None \<Rightarrow> None
      | Some t \<Rightarrow> if exp t < now then None else Some (sub t))"

definition user_dict :: "User \<Rightarrow> py_dict" where
  "user_dict u =
     [(''id'', PyInt (u_id u)), (''phone_number'', PyStr (phone_number u)),
      (''role'', PyStr (role u)), (''is_active'', PyBool (is_active u)),
      (''created_at'', PyTime (u_created_at u)), (''first_name'', PyNone),
      (''last_name'', PyNone), (''email'', PyNone)]"

definition get_current_active_user :: "real \<Rightarrow> Token option \<Rightarrow> User list \<Rightarrow> error + py_dict" where
  "get_current_active_user now credentials users =
     (case verify_token now credentials of
        None \<Rightarrow> Inl InvalidToken
      | Some phone \<Rightarrow>
          (case find (\<lambda>u. phone_number u = phone) users of
             None \<Rightarrow> Inl UserNotFound
           | Some u \<Rightarrow> if \<not> is_active u then Inl InactiveUser else Inr (user_dict u)))"

text \<open>
  The conditions of the routes: a comparison of an attribute with a value, \<^verbatim>\<open>and\<close>,
  which does not evaluate its second operand when the first is false, and
  \<^verbatim>\<open>if\<close>/\<^verbatim>\<open>elif\<close>. An exception raised by a condition leaves the route.
\<close>

definition attr_eq :: "py_dict \<Rightarrow> string \<Rightarrow> py_value \<Rightarrow> py_exception + bool" where
  "attr_eq d name v = (case getattr d name of Inl exn \<Rightarrow> Inl exn | Inr w \<Rightarrow> Inr (w = v))"


definition py_if :: "py_exception + bool \<Rightarrow> py_exception + 'a \<Rightarrow> py_exception + 'a
                       \<Rightarrow> py_exception + 'a" where
  "py_if c t e = (case c of Inl exn \<Rightarrow> Inl exn | Inr x \<Rightarrow> if x then t else e)"

definition py_int_opt :: "int option \<Rightarrow> py_value" where
  "py_int_opt v = (case v of None \<Rightarrow> PyNone | Some i \<Rightarrow> PyInt i)"


section \<open>Orders: \<^verbatim>\<open>models.py\<close>, \<^verbatim>\<open>schemas.py\<close> and \<^verbatim>\<open>routers/orders.py\<close>\<close>

datatype OrderStatus =
    CREATED | RECEIVED | SENT_TO_SERVICE | DIAGNOSING | PRICE_PROPOSED | CONFIRMED
  | REJECTED | IN_WORK | READY | READY_FOR_PICKUP | DELIVERED

datatype OrderCategory = TECH | CLOTHES | SHOES

datatype PaymentMethod = ONLINE | CASH

text \<open>
  The tables \<^verbatim>\<open>pvz\<close> and \<^verbatim>\<open>orders\<close>, with the columns the order routes read or
  write; \<open>pvz_id\<close> and \<open>order_id\<close> are the columns \<^verbatim>\<open>id\<close>. A nullable column is an
  option: \<^verbatim>\<open>status\<close> has a default and no \<^verbatim>\<open>nullable=False\<close>. Prices are floats that
  the routes only copy; they are taken as real numbers.
\<close>

record PVZ =
  pvz_id :: int
  user_id :: int
  pvz_is_active :: bool

record Order =
  order_id :: int
  order_number :: string
  client_id :: int
  service_id :: "int option"
  receive_pvz_id :: int
  delivery_pvz_id :: int
  category :: OrderCategory
  subcategory :: string
  description :: string
  price_limit :: "real option"
  proposed_price :: "real option"
  final_price :: "real option"
  payment_method :: PaymentMethod
  status :: "OrderStatus option"
  price_justification :: "string option"
  created_at :: real

text \<open>The request body \<^verbatim>\<open>OrderCreate\<close>.\<close>

record OrderCreate =
  data_category :: OrderCategory
  data_subcategory :: string
  data_description :: string
  data_price_limit :: "real option"
  data_payment_method :: PaymentMethod
  data_receive_pvz_id :: int
  data_delivery_pvz_id :: int

text \<open>
  The request body \<^verbatim>\<open>OrderUpdate\<close>, as \<^verbatim>\<open>dict(exclude_unset=True)\<close> sees it: a
  field is absent from the request (\<open>None\<close>), or present with a value or with
  \<^verbatim>\<open>null\<close> (\<open>Some v\<close>, \<open>Some None\<close>).
\<close>

record OrderUpdate =
  upd_status :: "OrderStatus option option"
  upd_proposed_price :: "real option option"
  upd_final_price :: "real option option"
  upd_price_justification :: "string option option"
  upd_service_id :: "int option option"

record create_env =
  new_order_number :: string  \<comment> \<open>\<^verbatim>\<open>ORD-\<close>, the date, eight hexadecimal digits of a UUID\<close>
  create_time :: real
  create_commit_ok :: bool  \<comment> \<open>the commit returns, the unique index apart\<close>

text \<open>
  In every route \<open>current_user\<close> is the dictionary of \<^verbatim>\<open>get_current_active_user\<close>,
  and the route reads \<^verbatim>\<open>current_user.role\<close> and \<^verbatim>\<open>current_user.id\<close> as attributes.
\<close>


text \<open>
  \<^verbatim>\<open>get_orders\<close>. The route has no handler: an exception is answered with 500.
  \<^verbatim>\<open>ORDER BY created_at DESC\<close> leaves the order of rows with equal timestamps open;
  here they keep the order of the table.
\<close>

definition get_orders ::
  "OrderStatus option \<Rightarrow> py_dict \<Rightarrow> PVZ list \<Rightarrow> Order list \<Rightarrow> error + Order list" where
  "get_orders status_filter current_user pvz_tbl orders =
     (let by_role =
            py_if (attr_eq current_user ''role'' (PyStr ''client''))
              (case getattr current_user ''id'' of
                 Inl exn \<Rightarrow> Inl exn
               | Inr uid \<Rightarrow> Inr (filter (\<lambda>r. PyInt (client_id r) = uid) orders))
              (py_if (attr_eq current_user ''role'' (PyStr ''service''))
                 (case getattr current_user ''id'' of
                    Inl exn \<Rightarrow> Inl exn
                  | Inr uid \<Rightarrow> Inr (filter (\<lambda>r. py_int_opt (service_id r) = uid) orders))
                 (py_if (attr_eq current_user ''role'' (PyStr ''pvz''))
                    (case getattr current_user ''id'' of
                       Inl exn \<Rightarrow> Inl exn
                     | Inr uid \<Rightarrow>
                         let own = map pvz_id (filter (\<lambda>p. PyInt (user_id p) = uid) pvz_tbl)
                         in Inr (filter (\<lambda>r. receive_pvz_id r \<in> set own
                                             \<or> delivery_pvz_id r \<in> set own) orders))
                    (Inr orders)))
      in case by_role of
           Inl exn \<Rightarrow> Inl InternalError
         | Inr selected \<Rightarrow>
             Inr (sort_key (\<lambda>r. - created_at r)
                    (case status_filter of
                       None \<Rightarrow> selected
                     | Some wanted \<Rightarrow> filter (\<lambda>r. status r = Some wanted) selected)))"






section \<open>The lifecycle and the authorization table of the specification\<close>






section \<open>Predicates on the code store\<close>

text \<open>
  \<open>spent s p t\<close>: from time \<open>t\<close> on, neither tier that \<open>s\<close> can still read holds a
  live, non-empty code for \<open>p\<close>. \<open>absent s p\<close>: neither holds any entry for \<open>p\<close>.
\<close>

definition spent :: "SMSStorage \<Rightarrow> string \<Rightarrow> real \<Rightarrow> bool" where
  "spent s p t =
     (storage_inv s
      \<and> (redis_client s \<longrightarrow> (\<forall>d. redis_db s p = Some d \<longrightarrow> expires d \<le> t \<or> code d = []))
      \<and> (\<forall>d. dev_sms_storage s p = Some d \<longrightarrow> expires d \<le> t \<or> code d = []))"

definition absent :: "SMSStorage \<Rightarrow> string \<Rightarrow> bool" where
  "absent s p =
     (storage_inv s \<and> (redis_client s \<longrightarrow> redis_db s p = None) \<and> dev_sms_storage s p = None)"

section \<open>Example data\<close>

definition phone1 :: string where
  "phone1 = ''+7 999 123-45-67''"

definition stored_state :: SMSStorage where
  "stored_state = \<lparr>redis_client = True,
                    redis_db = [phone1 \<mapsto> \<lparr>code = ''4821'', expires = 300\<rparr>],
                    dev_sms_storage = Map.empty, dev_storage_cleanup_time = 0\<rparr>"

definition send_env1 :: send_env where
  "send_env1 = \<lparr>generated_code = ''4821'', set_up = True, sms_delivered = True,
                delete_up = True, send_time = 0\<rparr>"

definition verify_at :: "real \<Rightarrow> verify_env" where
  "verify_at t = \<lparr>get_up = True, del_up = True, select_ok = True, insert_ok = True,
                  verify_time = t\<rparr>"

definition client1 :: User where
  "client1 = \<lparr>u_id = 1, phone_number = ''+7 999 123-45-67'', role = ''client'',
              is_active = True, u_created_at = 1\<rparr>"

definition pvz_actor :: User where
  "pvz_actor = \<lparr>u_id = 7, phone_number = ''+7 999 000-00-07'', role = ''pvz'',
                is_active = True, u_created_at = 2\<rparr>"

definition admin_actor :: User where
  "admin_actor = \<lparr>u_id = 9, phone_number = ''+7 999 000-00-09'', role = ''admin'',
                  is_active = True, u_created_at = 3\<rparr>"

definition users_table :: "User list" where
  "users_table = [client1, pvz_actor, admin_actor]"

definition token_of :: "User \<Rightarrow> Token" where
  "token_of u = \<lparr>sub = phone_number u, exp = 1810, token_type = ''bearer''\<rparr>"

definition new_client :: User where
  "new_client = \<lparr>u_id = 1, phone_number = phone1, role = ''CLIENT'', is_active = True,
                 u_created_at = 10\<rparr>"

definition pvz_table :: "PVZ list" where
  "pvz_table = [\<lparr>pvz_id = 1, user_id = 7, pvz_is_active = False\<rparr>,
                \<lparr>pvz_id = 2, user_id = 8, pvz_is_active = True\<rparr>]"

definition order1 :: Order where
  "order1 = \<lparr>order_id = 1, order_number = ''ORD-20240101-0A1B2C3D'', client_id = 1,
             service_id = None, receive_pvz_id = 1, delivery_pvz_id = 2, category = TECH,
             subcategory = ''phone'', description = ''screen'', price_limit = None,
             proposed_price = None, final_price = None, payment_method = CASH,
             status = Some CREATED, price_justification = None, created_at = 100\<rparr>"

definition order2 :: Order where
  "order2 = order1\<lparr>order_id := 2, client_id := 3, created_at := 200\<rparr>"

definition no_update :: OrderUpdate where
  "no_update = \<lparr>upd_status = None, upd_proposed_price = None, upd_final_price = None,
                upd_price_justification = None, upd_service_id = None\<rparr>"

definition order_data1 :: OrderCreate where
  "order_data1 = \<lparr>data_category = TECH, data_subcategory = ''phone'',
                  data_description = ''screen'', data_price_limit = None,
                  data_payment_method = CASH, data_receive_pvz_id = 1,
                  data_delivery_pvz_id = 2\<rparr>"

definition create_env1 :: create_env where
  "create_env1 = \<lparr>new_order_number = ''ORD-20240101-0A1B2C3D'', create_time = 100,
                  create_commit_ok = True\<rparr>"

section \<open>The code store: what a read returns and what it leaves\<close>

lemmas eval_defs =
  phone1_def stored_state_def send_env1_def verify_at_def init_storage_def storage_inv_def
  send_sms_code_def post_send_sms_def verify_sms_code_def set_sms_code_def
  set_sms_code_fallback_def get_sms_code_def get_sms_code_fallback_def redis_get_def
  delete_sms_code_def delete_sms_code_fallback_def cleanup_expired_codes_def send_sms_def
  validate_phone_def isdigit_def slice_def startswith_def str_opt_def fresh_id_def Let_def

lemma get_fallback_result:
  "fst (get_sms_code_fallback s p now) =
     (case dev_sms_storage s p of
        None \<Rightarrow> None
      | Some d \<Rightarrow> if now < expires d then Some (code d) else None)"
  by (simp add: get_sms_code_fallback_def cleanup_expired_codes_def Let_def
      split: option.splits)


lemma get_fallback_redis:
  "redis_client (snd (get_sms_code_fallback s p now)) = redis_client s"
  "redis_db (snd (get_sms_code_fallback s p now)) = redis_db s"
  by (simp_all add: get_sms_code_fallback_def cleanup_expired_codes_def Let_def
      split: option.splits)

text \<open>The invariant holds when the module is loaded, and every operation keeps it.\<close>

lemma storage_inv_init: "storage_inv (init_storage ping_ok server now)"
  by (simp add: storage_inv_def init_storage_def)

lemma storage_inv_set: "storage_inv s \<Longrightarrow> storage_inv (snd (set_sms_code s p c ttl up now))"
  by (simp add: storage_inv_def set_sms_code_def set_sms_code_fallback_def)


lemma storage_inv_delete: "storage_inv s \<Longrightarrow> storage_inv (delete_sms_code s p up)"
  by (simp add: storage_inv_def delete_sms_code_def delete_sms_code_fallback_def)

text \<open>A client that has been cleared is never set again.\<close>

lemma redis_client_stays_cleared:
  assumes "\<not> redis_client s"
  shows "\<not> redis_client (snd (set_sms_code s p c ttl up now))"
    and "\<not> redis_client (snd (get_sms_code s p up now))"
    and "\<not> redis_client (delete_sms_code s p up)"
  using assms
  by (simp_all add: set_sms_code_def set_sms_code_fallback_def get_sms_code_def
      get_fallback_redis delete_sms_code_def delete_sms_code_fallback_def)

lemma first_error_clears_client:
  "\<not> redis_client (snd (set_sms_code s p c ttl False now))"
  "\<not> redis_client (snd (get_sms_code s p False now))"
  "\<not> redis_client (delete_sms_code s p False)"
  by (simp_all add: set_sms_code_def set_sms_code_fallback_def get_sms_code_def
      get_fallback_redis delete_sms_code_def delete_sms_code_fallback_def)

lemma absent_spent: "absent s p \<Longrightarrow> spent s p t"
  by (simp add: absent_def spent_def)

lemma spent_mono: "spent s p t \<Longrightarrow> t \<le> t' \<Longrightarrow> spent s p t'"
  unfolding spent_def by (meson order_trans)

lemma get_spent:
  assumes "spent s p now"
  shows "fst (get_sms_code s p up now) = None \<or> fst (get_sms_code s p up now) = Some []"
  using assms
  by (auto simp add: spent_def get_sms_code_def redis_get_def get_fallback_result
      split: option.splits)



lemma delete_absent:
  assumes "storage_inv s"
  shows "absent (delete_sms_code s p up) p"
  using assms
  by (auto simp add: absent_def storage_inv_def delete_sms_code_def
      delete_sms_code_fallback_def)

lemma set_spent:
  assumes "storage_inv s"
  shows "spent (snd (set_sms_code s p c ttl up t0)) p (t0 + of_int ttl)"
  using assms
  by (auto simp add: spent_def storage_inv_def set_sms_code_def set_sms_code_fallback_def)

section \<open>The two endpoints, by components\<close>

lemma verify_not_found:
  assumes "fst (get_sms_code st phone (get_up env) (verify_time env)) = None
           \<or> fst (get_sms_code st phone (get_up env) (verify_time env)) = Some []"
  shows "fst (verify_sms_code env phone submitted st users) = Inl CodeNotFound"
  using assms by (auto simp add: verify_sms_code_def Let_def split: prod.splits)





lemma send_storage:
  "fst (snd (send_sms_code env p st)) =
     (let s1 = snd (set_sms_code st p (generated_code env) 300 (set_up env) (send_time env)) in
      if sms_delivered env then s1 else delete_sms_code s1 p (delete_up env))"
  by (simp add: send_sms_code_def send_sms_def Let_def set_sms_code_def
      set_sms_code_fallback_def split: prod.splits)


lemma send_leaves_spent:
  assumes "storage_inv st"
  shows "spent (fst (snd (send_sms_code env p st))) p (send_time env + 300)"
proof (cases "sms_delivered env")
  case True
  then show ?thesis
    using set_spent [OF assms, of p "generated_code env" 300 "set_up env" "send_time env"]
    by (simp add: send_storage)
next
  case False
  then show ?thesis
    using delete_absent [OF storage_inv_set [OF assms]]
    by (simp add: send_storage absent_spent)
qed

section \<open>Claims on the one-time code\<close>



text \<open>
  Claim C4. The TTL is enforced. On a store that satisfies the invariant, a code stored
  at time \<open>t0\<close> with \<open>ttl\<close> seconds, directly or by \<^verbatim>\<open>send_sms_code\<close> with its 300
  seconds, makes \<^verbatim>\<open>verify_sms_code\<close> answer \<open>CodeNotFound\<close> at any time after
  \<open>t0 + ttl\<close>, also for the stored code itself; and in the in-memory tier a read after
  the expiry time returns nothing.
\<close>

theorem verify_code_ttl_enforced:
  assumes "storage_inv st"
  shows "(t0 + of_int ttl < verify_time env \<longrightarrow>
            fst (verify_sms_code env phone c (snd (set_sms_code st phone c ttl up t0)) users)
              = Inl CodeNotFound)
       \<and> (send_time senv + 300 < verify_time env \<longrightarrow>
            fst (verify_sms_code env phone (generated_code senv)
                  (fst (snd (send_sms_code senv phone st))) users) = Inl CodeNotFound)
       \<and> (t0 + of_int ttl < now \<longrightarrow>
            fst (get_sms_code_fallback (snd (set_sms_code_fallback s phone c ttl t0)) phone now)
              = None)"
proof (intro conjI impI)
  assume "t0 + of_int ttl < verify_time env"
  then have "spent (snd (set_sms_code st phone c ttl up t0)) phone (verify_time env)"
    using set_spent [OF assms] spent_mono by (meson less_imp_le)
  then show "fst (verify_sms_code env phone c (snd (set_sms_code st phone c ttl up t0)) users)
              = Inl CodeNotFound"
    by (intro verify_not_found get_spent)
next
  assume "send_time senv + 300 < verify_time env"
  then have "spent (fst (snd (send_sms_code senv phone st))) phone (verify_time env)"
    using send_leaves_spent [OF assms] spent_mono by (meson less_imp_le)
  then show "fst (verify_sms_code env phone (generated_code senv)
                  (fst (snd (send_sms_code senv phone st))) users) = Inl CodeNotFound"
    by (intro verify_not_found get_spent)
next
  assume "t0 + of_int ttl < now"
  then show "fst (get_sms_code_fallback (snd (set_sms_code_fallback s phone c ttl t0)) phone now)
              = None"
    by (simp add: get_fallback_result set_sms_code_fallback_def)
qed

text \<open>The theorem at a code stored at time 0 and submitted at time 301.\<close>

theorem verify_code_ttl_enforced_witness:
  "storage_inv (init_storage True Map.empty 0)
   \<and> fst (verify_sms_code (verify_at 301) phone1 ''4821''
            (snd (set_sms_code (init_storage True Map.empty 0) phone1 ''4821'' 300 True 0)) [])
       = Inl CodeNotFound
   \<and> fst (verify_sms_code (verify_at 301) phone1 ''4821''
            (fst (snd (send_sms_code send_env1 phone1 (init_storage True Map.empty 0)))) [])
       = Inl CodeNotFound
   \<and> fst (get_sms_code_fallback
            (snd (set_sms_code_fallback (init_storage False Map.empty 0) phone1 ''4821'' 300 0))
            phone1 301) = None
   \<and> fst (snd (send_sms_code send_env1 phone1 (init_storage True Map.empty 0))) = stored_state"
proof -
  have h: "storage_inv (init_storage True Map.empty 0)"
    by (simp add: storage_inv_def init_storage_def)
  have t1: "0 + of_int 300 < verify_time (verify_at 301)"
    by (simp add: verify_at_def)
  have t2: "send_time send_env1 + 300 < verify_time (verify_at 301)"
    by (simp add: verify_at_def send_env1_def)
  have t3: "(0::real) + of_int 300 < 301"
    by simp
  have g: "generated_code send_env1 = ''4821''"
    by (simp add: send_env1_def)
  have e: "fst (snd (send_sms_code send_env1 phone1 (init_storage True Map.empty 0)))
             = stored_state"
    by (simp add: eval_defs)
  note t = verify_code_ttl_enforced [OF h, where ?t0.0 = 0 and ttl = 300
      and env = "verify_at 301" and phone = phone1 and c = "''4821''" and up = True
      and users = "[]" and senv = send_env1 and now = 301
      and s = "init_storage False Map.empty 0"]
  from t t1 t2 t3 h e show ?thesis
    unfolding g by (intro conjI) blast+
qed

text \<open>
  Claim C5. The fallback round trip. When the Redis tier is unreachable at the write
  (the client is already cleared, or the call raises), \<^verbatim>\<open>set_sms_code\<close> still returns
  \<^verbatim>\<open>True\<close> and leaves the client cleared; a read for the same phone number before
  \<open>t0 + ttl\<close> returns the code from the dictionary, whether or not Redis would answer
  by then, and the delete goes to the dictionary too. The first error of any of the
  three operations clears the client. The caller reads the same value as from a Redis
  that answers both calls.
\<close>

theorem code_store_fallback_round_trip:
  assumes "\<not> redis_client s \<or> \<not> up_set" and "now < t0 + of_int ttl"
  shows "fst (set_sms_code s p c ttl up_set t0)
       \<and> \<not> redis_client (snd (set_sms_code s p c ttl up_set t0))
       \<and> fst (get_sms_code (snd (set_sms_code s p c ttl up_set t0)) p up_get now) = Some c
       \<and> \<not> redis_client (snd (get_sms_code (snd (set_sms_code s p c ttl up_set t0)) p up_get now))
       \<and> delete_sms_code (snd (set_sms_code s p c ttl up_set t0)) p up_del
           = delete_sms_code_fallback (snd (set_sms_code s p c ttl up_set t0)) p
       \<and> \<not> redis_client (snd (set_sms_code s' q c' ttl' False t))
       \<and> \<not> redis_client (snd (get_sms_code s' q False t))
       \<and> \<not> redis_client (delete_sms_code s' q False)
       \<and> fst (get_sms_code (snd (set_sms_code (s\<lparr>redis_client := True\<rparr>) p c ttl True t0))
              p True now) = Some c"
  using assms
  by (auto simp add: set_sms_code_def set_sms_code_fallback_def get_sms_code_def
      get_fallback_result get_fallback_redis delete_sms_code_def redis_get_def
      delete_sms_code_fallback_def)

text \<open>
  The theorem at a store whose client is set, a Redis call that raises at time 0 and a
  read at time 10.
\<close>

theorem code_store_fallback_round_trip_witness:
  "redis_client (init_storage True Map.empty 0)
   \<and> (10::real) < 0 + of_int 300
   \<and> fst (set_sms_code (init_storage True Map.empty 0) phone1 ''4821'' 300 False 0)
   \<and> \<not> redis_client (snd (set_sms_code (init_storage True Map.empty 0) phone1 ''4821'' 300 False 0))
   \<and> fst (get_sms_code
            (snd (set_sms_code (init_storage True Map.empty 0) phone1 ''4821'' 300 False 0))
            phone1 True 10) = Some ''4821''"
proof -
  have h1: "\<not> redis_client (init_storage True Map.empty 0) \<or> \<not> False"
    by simp
  have h2: "(10::real) < 0 + of_int 300"
    by simp
  have h0: "redis_client (init_storage True Map.empty 0)"
    by (simp add: init_storage_def)
  note t = code_store_fallback_round_trip [OF h1 h2, where p = phone1 and c = "''4821''"
      and up_get = True]
  from h0 h2 t [THEN conjunct1] t [THEN conjunct2, THEN conjunct1]
    t [THEN conjunct2, THEN conjunct2, THEN conjunct1]
  show ?thesis
    by (intro conjI)
qed



text \<open>
  Claim C6, evaluated. \<^verbatim>\<open>/send-sms\<close> with \<^verbatim>\<open>9991234567\<close> stores the code under the
  normalized number \<^verbatim>\<open>+7 999 123-45-67\<close>. \<^verbatim>\<open>verify_sms_code\<close> with \<^verbatim>\<open>9991234567\<close> as
  sent and a wrong code then answers \<open>CodeNotFound\<close>, not \<open>CodeMismatch\<close>, and leaves
  the store as it was: the code is still there under the normalized number. Sent with
  the normalized number, the wrong code is a \<open>CodeMismatch\<close> and the right code after
  it is \<open>CodeNotFound\<close>.
\<close>

theorem verify_raw_phone_not_found:
  "fst (post_send_sms send_env1 ''9991234567'' (init_storage True Map.empty 0))
     = Inr [(''message'', ''sms code sent''), (''phone_number'', ''+7 999 123-45-67''),
            (''code'', ''4821'')]
   \<and> fst (snd (post_send_sms send_env1 ''9991234567'' (init_storage True Map.empty 0)))
       = stored_state
   \<and> fst (verify_sms_code (verify_at 10) ''9991234567'' ''0000'' stored_state [])
       = Inl CodeNotFound
   \<and> fst (snd (verify_sms_code (verify_at 10) ''9991234567'' ''0000'' stored_state []))
       = stored_state
   \<and> fst (verify_sms_code (verify_at 20) ''9991234567'' ''4821'' stored_state [])
       = Inl CodeNotFound
   \<and> fst (get_sms_code stored_state ''+7 999 123-45-67'' True 20) = Some ''4821''
   \<and> fst (verify_sms_code (verify_at 10) ''+7 999 123-45-67'' ''0000'' stored_state [])
       = Inl CodeMismatch
   \<and> fst (verify_sms_code (verify_at 20) ''+7 999 123-45-67'' ''4821''
            (fst (snd (verify_sms_code (verify_at 10) ''+7 999 123-45-67'' ''0000''
                        stored_state []))) [])
       = Inl CodeNotFound"
  by (simp add: eval_defs)

text \<open>
  Claim C9, evaluated. \<^verbatim>\<open>send_sms_code\<close> logs the generated code and returns it in its
  answer; \<^verbatim>\<open>verify_sms_code\<close> logs the stored code, twice when the submitted one is
  wrong.
\<close>

theorem code_disclosed_in_log_and_answer:
  "send_sms_code send_env1 phone1 (init_storage True Map.empty 0)
     = (Inr [(''message'', ''sms code sent''), (''phone_number'', phone1), (''code'', ''4821'')],
        stored_state,
        [Log INFO ''request to send sms'' [phone1],
         Log INFO ''code generated'' [''4821'', phone1],
         Log INFO ''trying to send sms'' [phone1],
         Log INFO ''sms sent'' [phone1]])
   \<and> snd (snd (snd (verify_sms_code (verify_at 10) phone1 ''0000'' stored_state [])))
       = [Log INFO ''verification attempt'' [phone1],
          Log INFO ''code fetched'' [''4821'', phone1],
          Log WARNING ''wrong code'' [phone1, ''4821'', ''0000'']]
   \<and> ''4821'' \<in> set (concat (map log_values
         (snd (snd (send_sms_code send_env1 phone1 (init_storage True Map.empty 0))))))"
  by (simp add: eval_defs)

section \<open>Orders: what the routes do with the dictionary\<close>

text \<open>
  \<^verbatim>\<open>role\<close> and \<^verbatim>\<open>id\<close> are keys of the dictionary, not attributes: the first attribute
  read of every order route raises.
\<close>

lemmas order_eval_defs =
  client1_def pvz_actor_def admin_actor_def users_table_def token_of_def pvz_table_def
  order1_def order2_def no_update_def order_data1_def create_env1_def new_client_def
  get_current_active_user_def verify_token_def user_dict_def

lemma getattr_role: "getattr d ''role'' = Inl AttributeError"
  by (simp add: getattr_def dict_attributes_def)

lemma getattr_id: "getattr d ''id'' = Inl AttributeError"
  by (simp add: getattr_def dict_attributes_def)




lemma get_orders_raises:
  "get_orders status_filter current_user pvz_tbl orders = Inl InternalError"
  by (simp add: get_orders_def py_if_def attr_eq_def getattr_role)















section \<open>Claims on orders\<close>










text \<open>
  Claim C10, evaluated. \<^verbatim>\<open>get_orders\<close> reads \<^verbatim>\<open>current_user.role\<close> on the dictionary
  before any filter: for every caller the route raises and answers 500, and no list is
  returned. So it is for an admin, and for the user that \<^verbatim>\<open>verify_sms_code\<close> creates
  with the role \<^verbatim>\<open>CLIENT\<close>.
\<close>

theorem get_orders_raises_for_every_caller:
  "get_orders status_filter current_user pvz_tbl orders = Inl InternalError
   \<and> get_current_active_user 10 (Some (token_of admin_actor)) users_table
       = Inr (user_dict admin_actor)
   \<and> get_orders None (user_dict admin_actor) pvz_table [order1, order2] = Inl InternalError
   \<and> fst (snd (snd (verify_sms_code (verify_at 10) phone1 ''4821'' stored_state [])))
       = [new_client]
   \<and> get_current_active_user 20 (Some (token_of new_client)) [new_client]
       = Inr (user_dict new_client)
   \<and> get_orders None (user_dict new_client) pvz_table [order1, order2] = Inl InternalError"
  by (simp add: get_orders_raises order_eval_defs eval_defs)

end
